theory Spec2Isabelle
  imports Main "HOL-Library.Word"
begin

section \<open>Data model (types.ts)\<close>

text \<open>
  The widget of \<^verbatim>\<open>App.tsx\<close> keeps its session in React state cells and reacts to
  messages of the host frame. The embedding keeps the state cells in one record,
  passes it through every handler, and returns next to it the list of effects the
  handler issued, in the order of the source: events posted to the host, calls of
  the backend service, console output.
\<close>

datatype AppStatus = Initializing | Welcome | Uploading | Chatting | Error

text \<open>\<^verbatim>\<open>GroundingChunk\<close>: an optional \<^verbatim>\<open>retrievedContext\<close> with an optional text.\<close>

type_synonym GroundingChunk = "string option option"

record QueryResult =
  resultText :: string
  resultChunks :: "GroundingChunk list"

datatype Role = User | Model

record ChatMessage =
  role :: Role
  parts :: "string list"
  groundingChunks :: "GroundingChunk list option"

record InitChatPayloadFile =
  fileName :: string
  mimeType :: "string option"
  url :: "string option"
  base64Data :: "string option"

record InitChatPayload =
  files :: "InitChatPayloadFile list"
  chatDisplayName :: "string option"
  apiKey :: "string option"

text \<open>
  \<^verbatim>\<open>ParentMessage\<close> is tagged by its \<^verbatim>\<open>type\<close> string; \<open>Unknown t\<close> stands for a
  message whose tag \<open>t\<close> is none of the three the switch knows.
\<close>

datatype ParentMessage =
    InitChat InitChatPayload
  | SendMessage string
  | ResetChat
  | Unknown string

datatype ChildMessage =
    ChatReady string
  | ChatResponse string "GroundingChunk list"
  | ChatError string
  | ChatEnded string

text \<open>
  A \<^verbatim>\<open>File\<close>: its name, its type and its bytes. A \<^verbatim>\<open>Blob\<close> is the body of a
  fetched response.
\<close>

type_synonym byte = "8 word"

record File =
  name :: string
  fileType :: string
  content :: "byte list"

record Blob =
  blobBytes :: "byte list"
  blobType :: string

section \<open>Errors as values\<close>

text \<open>
  What a collaborator outside the widget (the backend service, \<^verbatim>\<open>fetch\<close>) throws or
  rejects with: an \<^verbatim>\<open>Error\<close> object with its message, or any other value, of which
  the code reads only its truthiness and \<^verbatim>\<open>String(err)\<close>.
\<close>

datatype Thrown = ErrorObject string | OtherValue bool string

text \<open>
  Everything a \<^verbatim>\<open>catch\<close> of the widget can receive: a collaborator's rejection, or
  one of the errors the resolver raises itself.
\<close>

datatype failure =
    Rejected Thrown
  | FetchFailed string string
  | InvalidCharacter
  | InvalidFilePayload

text \<open>The condition \<^verbatim>\<open>err ? ... : ''\<close> of \<^verbatim>\<open>handleError\<close>.\<close>

fun failure_truthy :: "failure \<Rightarrow> bool" where
  "failure_truthy (Rejected (ErrorObject m)) = True"
| "failure_truthy (Rejected (OtherValue t s)) = t"
| "failure_truthy (FetchFailed u st) = True"
| "failure_truthy InvalidCharacter = True"
| "failure_truthy InvalidFilePayload = True"

text \<open>
  \<^verbatim>\<open>err instanceof Error ? err.message : String(err)\<close>. The message of the exception
  of \<^verbatim>\<open>atob\<close> is the browser's; the text below is the one of the HTML standard's
  \<^verbatim>\<open>InvalidCharacterError\<close>.
\<close>

fun failure_text :: "failure \<Rightarrow> string" where
  "failure_text (Rejected (ErrorObject m)) = m"
| "failure_text (Rejected (OtherValue t s)) = s"
| "failure_text (FetchFailed u st) = ''Failed to fetch file from URL: '' @ u @ '' - '' @ st"
| "failure_text InvalidCharacter = ''The string to be decoded is not correctly encoded.''"
| "failure_text InvalidFilePayload =
     ''Invalid file payload: must provide url or base64Data with mimeType.''"

section \<open>The collaborators\<close>

record Response =
  ok :: bool
  statusText :: string
  blob :: "Thrown + Blob"

text \<open>
  The backend service \<^verbatim>\<open>geminiService\<close>, \<^verbatim>\<open>fetch\<close> and the clock are outside the
  repository's sources. A handler runs against an environment that answers each call
  from its arguments: \<open>Inl\<close> (or \<open>Some\<close> for a call without result) is a rejection.
  Different commands may run against different environments.
\<close>

record Env =
  initialize :: "Thrown option"
  createRagStore :: "string \<Rightarrow> Thrown + string"
  uploadToRagStore :: "string \<Rightarrow> File \<Rightarrow> Thrown option"
  generateExampleQuestions :: "string \<Rightarrow> Thrown + string list"
  fileSearch :: "string \<Rightarrow> string \<Rightarrow> Thrown + QueryResult"
  deleteRagStore :: "string \<Rightarrow> Thrown option"
  fetch :: "string \<Rightarrow> Thrown + Response"
  now :: nat

datatype Call =
    Initialize
  | CreateRagStore string
  | UploadToRagStore string File
  | GenerateExampleQuestions string
  | FileSearch string string
  | DeleteRagStore string
  | Fetch string

datatype Effect =
    Post ChildMessage
  | Issue Call
  | ConsoleError string "failure option"
  | ConsoleWarn string

section \<open>Strings of JavaScript\<close>

text \<open>Truthiness of an optional string: \<^verbatim>\<open>undefined\<close>, \<^verbatim>\<open>null\<close> and \<^verbatim>\<open>''\<close> are falsy.\<close>

fun truthy :: "string option \<Rightarrow> bool" where
  "truthy None = False"
| "truthy (Some s) = (s \<noteq> [])"

text \<open>\<^verbatim>\<open>a || b\<close> on a string and a fallback.\<close>

definition orElse :: "string \<Rightarrow> string \<Rightarrow> string" where
  "orElse a b = (if a \<noteq> [] then a else b)"

text \<open>\<^verbatim>\<open>toLowerCase\<close>, on the ASCII letters.\<close>

definition lowerChar :: "char \<Rightarrow> char" where
  "lowerChar c =
     (let n = (of_char c :: nat) in if 65 \<le> n \<and> n \<le> 90 then char_of (n + 32) else c)"

definition toLowerCase :: "string \<Rightarrow> string" where
  "toLowerCase s = map lowerChar s"

fun startsWith :: "string \<Rightarrow> string \<Rightarrow> bool" where
  "startsWith s [] = True"
| "startsWith [] (p # ps) = False"
| "startsWith (c # cs) (p # ps) = (c = p \<and> startsWith cs ps)"

fun includesText :: "string \<Rightarrow> string \<Rightarrow> bool" where
  "includesText [] sub = (sub = [])"
| "includesText (c # cs) sub = (startsWith (c # cs) sub \<or> includesText cs sub)"

text \<open>The decimal text of a number, as a template literal renders it.\<close>

definition digitChar :: "nat \<Rightarrow> char" where
  "digitChar d = char_of (48 + d)"

function numberText :: "nat \<Rightarrow> string" where
  "numberText n =
     (if n < 10 then [digitChar n] else numberText (n div 10) @ [digitChar (n mod 10)])"
  by pat_completeness auto
termination
  by (relation "measure id") auto

declare numberText.simps [simp del]

section \<open>Base64\<close>

text \<open>
  \<^verbatim>\<open>atob\<close> is the browser's, and the host encodes on its side: neither is code of the
  repository. Both are written out here after RFC 4648 and the forgiving-base64
  decoding of the WHATWG Infra standard, on the values of the bytes.
\<close>

definition b64Alphabet :: string where
  "b64Alphabet = ''ABCDEFGHIJKLMNOPQRSTUVWXYZabcdefghijklmnopqrstuvwxyz0123456789+/''"

definition b64Char :: "nat \<Rightarrow> char" where
  "b64Char n = b64Alphabet ! n"

fun indexOf :: "char \<Rightarrow> string \<Rightarrow> nat option" where
  "indexOf c [] = None"
| "indexOf c (x # xs) = (if c = x then Some 0 else map_option Suc (indexOf c xs))"

definition b64Index :: "char \<Rightarrow> nat option" where
  "b64Index c = indexOf c b64Alphabet"

text \<open>Three bytes give four six-bit groups; a last group of one or two bytes is cut short.\<close>

fun sextets :: "nat list \<Rightarrow> nat list" where
  "sextets (a # b # c # r) =
     [a div 4, (a mod 4) * 16 + b div 16, (b mod 16) * 4 + c div 64, c mod 64] @ sextets r"
| "sextets [a, b] = [a div 4, (a mod 4) * 16 + b div 16, (b mod 16) * 4]"
| "sextets [a] = [a div 4, (a mod 4) * 16]"
| "sextets [] = []"

definition padding :: "nat \<Rightarrow> string" where
  "padding n = replicate ((3 - n mod 3) mod 3) (CHR ''='')"

definition encodeBase64 :: "byte list \<Rightarrow> string" where
  "encodeBase64 bs = map b64Char (sextets (map unat bs)) @ padding (length bs)"

definition asciiWhitespace :: "char \<Rightarrow> bool" where
  "asciiWhitespace c = (of_char c \<in> {9, 10, 12, 13, 32 :: nat})"

text \<open>
  Four six-bit groups give three bytes; of a last group of three or two, the bits
  beyond the last whole byte are dropped.
\<close>

fun octets :: "nat list \<Rightarrow> nat list" where
  "octets (a # b # c # d # r) =
     [a * 4 + b div 16, (b mod 16) * 16 + c div 4, (c mod 4) * 64 + d] @ octets r"
| "octets [a, b, c] = [a * 4 + b div 16, (b mod 16) * 16 + c div 4]"
| "octets [a, b] = [a * 4 + b div 16]"
| "octets r = []"

text \<open>When the length is a multiple of four, one or two closing \<^verbatim>\<open>=\<close> are removed.\<close>

definition stripPadding :: "string \<Rightarrow> string" where
  "stripPadding d =
     (if length d mod 4 \<noteq> 0 then d
      else if 2 \<le> length d \<and> last d = CHR ''='' \<and> last (butlast d) = CHR ''=''
        then butlast (butlast d)
      else if d \<noteq> [] \<and> last d = CHR ''='' then butlast d
      else d)"

text \<open>\<open>None\<close> is the \<^verbatim>\<open>InvalidCharacterError\<close> exception.\<close>

definition atob :: "string \<Rightarrow> string option" where
  "atob data =
     (let d = stripPadding (filter (\<lambda>c. \<not> asciiWhitespace c) data)
      in if length d mod 4 = 1 then None
         else (case those (map b64Index d) of
                 None \<Rightarrow> None
               | Some groups \<Rightarrow> Some (map char_of (octets groups))))"

section \<open>File payload resolver\<close>

fun valueOf :: "string option \<Rightarrow> string" where
  "valueOf None = []"
| "valueOf (Some s) = s"

text \<open>
  The \<^verbatim>\<open>File\<close> constructor is the browser's. After the File API, the type it is
  handed becomes the empty string when a character of it lies outside U+0020 to
  U+007E, and is put in ASCII lower case otherwise.
\<close>

definition normalizeType :: "string \<Rightarrow> string" where
  "normalizeType t =
     (if list_all (\<lambda>c. 32 \<le> (of_char c :: nat) \<and> (of_char c :: nat) \<le> 126) t
      then map lowerChar t else [])"

text \<open>
  \<^verbatim>\<open>getFileFromPayload\<close>. \<^verbatim>\<open>charCodeAt\<close> is \<open>of_char\<close>, and the \<^verbatim>\<open>Uint8Array\<close>
  built from the numbers keeps each modulo 256, which \<open>of_nat\<close> does on \<open>byte\<close>.
\<close>

definition getFileFromPayload :: "Env \<Rightarrow> InitChatPayloadFile \<Rightarrow> Effect list \<times> (failure + File)" where
  "getFileFromPayload env filePayload =
     (if truthy (url filePayload) then
        ([Issue (Fetch (valueOf (url filePayload)))],
         (case fetch env (valueOf (url filePayload)) of
            Inl err \<Rightarrow> Inl (Rejected err)
          | Inr response \<Rightarrow>
              if \<not> ok response
              then Inl (FetchFailed (valueOf (url filePayload)) (statusText response))
              else (case blob response of
                      Inl err \<Rightarrow> Inl (Rejected err)
                    | Inr b \<Rightarrow>
                        Inr \<lparr>name = orElse (fileName filePayload) ''unknown_file'',
                             fileType = normalizeType
                                          (if truthy (mimeType filePayload)
                                           then valueOf (mimeType filePayload)
                                           else blobType b),
                             content = blobBytes b\<rparr>)))
      else if truthy (base64Data filePayload) \<and> truthy (mimeType filePayload) then
        ([],
         (case atob (valueOf (base64Data filePayload)) of
            None \<Rightarrow> Inl InvalidCharacter
          | Some byteCharacters \<Rightarrow>
              Inr \<lparr>name = orElse (fileName filePayload) ''unknown_file'',
                   fileType = normalizeType (valueOf (mimeType filePayload)),
                   content = map (\<lambda>ch. of_nat (of_char ch :: nat)) byteCharacters\<rparr>))
      else ([], Inl InvalidFilePayload))"

section \<open>Session state\<close>

record UploadProgress =
  current :: nat
  total :: nat
  message :: "string option"
  progressFileName :: "string option"

record Session =
  status :: AppStatus
  error :: "string option"
  uploadProgress :: "UploadProgress option"
  activeRagStoreName :: "string option"
  chatHistory :: "ChatMessage list"
  isQueryLoading :: bool
  exampleQuestions :: "string list"
  documentName :: string

text \<open>The initial values of the state cells.\<close>

definition initialSession :: Session where
  "initialSession =
     \<lparr>status = Initializing, error = None, uploadProgress = None,
      activeRagStoreName = None, chatHistory = [], isQueryLoading = False,
      exampleQuestions = [], documentName = []\<rparr>"

section \<open>Handlers\<close>

definition handleError :: "string \<Rightarrow> failure option \<Rightarrow> Session \<Rightarrow> Effect list \<times> Session" where
  "handleError msg err s =
     (let errorMessage =
            msg @ (case err of
                     None \<Rightarrow> []
                   | Some e \<Rightarrow> if failure_truthy e then '': '' @ failure_text e else [])
      in ([ConsoleError msg err, Post (ChatError errorMessage)],
          s\<lparr>error := Some errorMessage, status := Error\<rparr>))"

definition clearError :: "Session \<Rightarrow> Session" where
  "clearError s = s\<lparr>error := None, status := Initializing\<rparr>"

text \<open>
  The loop of \<^verbatim>\<open>handleInitChat\<close> over the payloads: each file is resolved, pushed
  on \<^verbatim>\<open>filesToUpload\<close> and uploaded before the next one; the first failure leaves
  the loop.
\<close>

fun uploadFiles ::
  "Env \<Rightarrow> string \<Rightarrow> InitChatPayloadFile list \<Rightarrow> File list \<Rightarrow> Effect list \<times> (failure + File list)"
where
  "uploadFiles env ragStoreName [] filesToUpload = ([], Inr filesToUpload)"
| "uploadFiles env ragStoreName (p # ps) filesToUpload =
     (case getFileFromPayload env p of
        (es, Inl err) \<Rightarrow> (es, Inl err)
      | (es, Inr file) \<Rightarrow>
          (case uploadToRagStore env ragStoreName file of
             Some err \<Rightarrow> (es @ [Issue (UploadToRagStore ragStoreName file)], Inl (Rejected err))
           | None \<Rightarrow>
               (case uploadFiles env ragStoreName ps (filesToUpload @ [file]) of
                  (es', r) \<Rightarrow> (es @ [Issue (UploadToRagStore ragStoreName file)] @ es', r))))"

text \<open>The document label computed at the end of a successful initialisation.\<close>

definition docName :: "string option \<Rightarrow> File list \<Rightarrow> string" where
  "docName displayName filesToUpload =
     (if truthy displayName then valueOf displayName
      else if length filesToUpload = 1 then name (filesToUpload ! 0)
      else if length filesToUpload = 2
        then name (filesToUpload ! 0) @ '' & '' @ name (filesToUpload ! 1)
      else numberText (length filesToUpload) @ '' documents'')"

text \<open>
  The \<^verbatim>\<open>catch\<close> and \<^verbatim>\<open>finally\<close> blocks of \<^verbatim>\<open>handleInitChat\<close>: \<open>ragStoreName\<close> is
  the local variable, still \<^verbatim>\<open>null\<close> when the store's creation failed. The deletion
  is not awaited; its rejection is only logged.
\<close>

definition initChatFailed ::
  "Env \<Rightarrow> string option \<Rightarrow> failure \<Rightarrow> Session \<Rightarrow> Effect list \<times> Session" where
  "initChatFailed env ragStoreName err s =
     (let errorMessage = toLowerCase (failure_text err);
          (es, s') =
            (if includesText errorMessage ''api key not valid''
                \<or> includesText errorMessage ''requested entity was not found''
             then handleError
                    ''The API key is invalid or not found. Please ensure a valid API Key is configured.''
                    (Some err) s
             else handleError ''Failed to start chat session'' (Some err) s);
          cleanup =
            (if truthy ragStoreName then
               Issue (DeleteRagStore (valueOf ragStoreName)) #
               (case deleteRagStore env (valueOf ragStoreName) of
                  None \<Rightarrow> []
                | Some deleteErr \<Rightarrow>
                    [ConsoleError ''Error cleaning up RAG store after init error:''
                       (Some (Rejected deleteErr))])
             else [])
      in (es @ cleanup, s'\<lparr>uploadProgress := None\<rparr>))"

text \<open>
  \<^verbatim>\<open>handleInitChat\<close>. The progress cell is written at several steps and reset to
  \<^verbatim>\<open>null\<close> by the \<^verbatim>\<open>finally\<close> block; the record holds its value when the handler
  returns.
\<close>

definition handleInitChat ::
  "Env \<Rightarrow> InitChatPayloadFile list \<Rightarrow> string option \<Rightarrow> Session \<Rightarrow> Effect list \<times> Session" where
  "handleInitChat env filePayloads displayName s =
     (if filePayloads = [] then
        handleError ''No files provided for chat initialization.'' None s
      else
        (case initialize env of
           Some err \<Rightarrow>
             (case handleError ''Initialization failed.'' (Some (Rejected err)) s of
                (es, s') \<Rightarrow> (Issue Initialize # es, s'))
         | None \<Rightarrow>
             (let s1 = s\<lparr>status := Uploading, error := None,
                         uploadProgress :=
                           Some \<lparr>current = 0, total = length filePayloads + 2,
                                 message = Some ''Creating document index...'',
                                 progressFileName = None\<rparr>\<rparr>;
                  storeName = ''chat-session-'' @ numberText (now env);
                  started = [Issue Initialize, Issue (CreateRagStore storeName)]
              in (case createRagStore env storeName of
                    Inl err \<Rightarrow>
                      (case initChatFailed env None (Rejected err) s1 of
                         (es, s') \<Rightarrow> (started @ es, s'))
                  | Inr ragStoreName \<Rightarrow>
                      (let s2 = s1\<lparr>activeRagStoreName := Some ragStoreName\<rparr>
                       in (case uploadFiles env ragStoreName filePayloads [] of
                             (ups, Inl err) \<Rightarrow>
                               (case initChatFailed env (Some ragStoreName) err s2 of
                                  (es, s') \<Rightarrow> (started @ ups @ es, s'))
                           | (ups, Inr filesToUpload) \<Rightarrow>
                               (case generateExampleQuestions env ragStoreName of
                                  Inl err \<Rightarrow>
                                    (case initChatFailed env (Some ragStoreName) (Rejected err) s2 of
                                       (es, s') \<Rightarrow>
                                         (started @ ups
                                            @ [Issue (GenerateExampleQuestions ragStoreName)] @ es,
                                          s'))
                                | Inr questions \<Rightarrow>
                                    (started @ ups
                                       @ [Issue (GenerateExampleQuestions ragStoreName),
                                          Post (ChatReady (docName displayName filesToUpload))],
                                     s2\<lparr>exampleQuestions := questions,
                                        documentName := docName displayName filesToUpload,
                                        chatHistory := [],
                                        status := Chatting,
                                        uploadProgress := None\<rparr>))))))))"

text \<open>
  \<^verbatim>\<open>handleResetChat\<close> and \<^verbatim>\<open>handleSendMessage\<close> read \<^verbatim>\<open>activeRagStoreName\<close>. A
  handler is a closure of the render that created it, so what it reads is the value
  \<open>seen\<close> that the cell had in that render; what it writes goes to the current cells
  \<open>s\<close>. \<open>handleResetChat env s\<close> and \<open>handleSendMessage env msg s\<close> are the handlers
  of the render whose cells are \<open>s\<close>, run on these cells.
\<close>

definition handleResetChatSeen ::
  "Env \<Rightarrow> string option \<Rightarrow> Session \<Rightarrow> Effect list \<times> Session" where
  "handleResetChatSeen env seen s =
     (if truthy seen then
        (case deleteRagStore env (valueOf seen) of
           None \<Rightarrow>
             ([Issue (DeleteRagStore (valueOf seen)),
               Post (ChatEnded ''Chat session reset.'')],
              s\<lparr>activeRagStoreName := None, chatHistory := [], exampleQuestions := [],
                documentName := [], status := Initializing, isQueryLoading := False\<rparr>)
         | Some err \<Rightarrow>
             (case handleError ''Failed to delete RAG store during reset.''
                     (Some (Rejected err)) (s\<lparr>isQueryLoading := True\<rparr>) of
                (es, s') \<Rightarrow>
                  (Issue (DeleteRagStore (valueOf seen)) # es,
                   s'\<lparr>isQueryLoading := False\<rparr>)))
      else
        ([Post (ChatEnded ''Chat session reset (no active store).'')],
         s\<lparr>activeRagStoreName := None, chatHistory := [], exampleQuestions := [],
           documentName := [], status := Initializing\<rparr>))"


definition apology :: ChatMessage where
  "apology =
     \<lparr>role = Model, parts = [''Sorry, I encountered an error. Please try again.''],
      groundingChunks = None\<rparr>"

definition handleSendMessageSeen ::
  "Env \<Rightarrow> string option \<Rightarrow> string \<Rightarrow> Session \<Rightarrow> Effect list \<times> Session" where
  "handleSendMessageSeen env seen msg s =
     (if \<not> truthy seen then
        ([Post (ChatError ''No active chat session. Please initialize first.'')], s)
      else
        (let userMessage = \<lparr>role = User, parts = [msg], groundingChunks = None\<rparr>;
             s1 = s\<lparr>chatHistory := chatHistory s @ [userMessage], isQueryLoading := True\<rparr>;
             asked = Issue (FileSearch (valueOf seen) msg)
         in (case fileSearch env (valueOf seen) msg of
               Inr result \<Rightarrow>
                 ([asked, Post (ChatResponse (resultText result) (resultChunks result))],
                  s1\<lparr>chatHistory :=
                        chatHistory s1
                          @ [\<lparr>role = Model, parts = [resultText result],
                               groundingChunks = Some (resultChunks result)\<rparr>],
                      isQueryLoading := False\<rparr>)
             | Inl err \<Rightarrow>
                 (case handleError ''Failed to get response'' (Some (Rejected err))
                         (s1\<lparr>chatHistory := chatHistory s1 @ [apology]\<rparr>) of
                    (es, s') \<Rightarrow>
                      (asked # es
                         @ [Post (ChatError
                                   (''Failed to get response: '' @ failure_text (Rejected err)))],
                       s'\<lparr>isQueryLoading := False\<rparr>)))))"

definition handleSendMessage :: "Env \<Rightarrow> string \<Rightarrow> Session \<Rightarrow> Effect list \<times> Session" where
  "handleSendMessage env msg s = handleSendMessageSeen env (activeRagStoreName s) msg s"

text \<open>
  A \<^verbatim>\<open>MessageEvent\<close>: whether its source is the parent window, and its data, if any.
\<close>

record MessageEvent =
  fromParent :: bool
  eventData :: "ParentMessage option"

text \<open>
  \<^verbatim>\<open>handleMessage\<close>, the listener. It holds the handlers of the render in which it
  was registered, so they read the store's name \<open>seen\<close> in that render. Its
  \<^verbatim>\<open>status\<close> is the current one: the effect that registers it depends on the status
  and runs again at every change of it. \<open>handleMessage env event s\<close> is the listener
  of the render whose cells are \<open>s\<close>.
\<close>

definition handleMessageSeen ::
  "Env \<Rightarrow> string option \<Rightarrow> MessageEvent \<Rightarrow> Session \<Rightarrow> Effect list \<times> Session" where
  "handleMessageSeen env seen event s =
     (if \<not> fromParent event then ([], s)
      else
        (case eventData event of
           None \<Rightarrow> ([], s)
         | Some (InitChat initChatPayload) \<Rightarrow>
             if status s \<noteq> Initializing \<and> status s \<noteq> Error \<and> status s \<noteq> Chatting
             then ([ConsoleWarn ''Ignoring initChat: App is not in an initial or error state.''], s)
             else handleInitChat env (files initChatPayload) (chatDisplayName initChatPayload) s
         | Some (SendMessage msg) \<Rightarrow>
             if status s = Chatting then handleSendMessageSeen env seen msg s
             else ([ConsoleWarn ''Cannot send message: Chat is not active.'',
                    Post (ChatError ''Chat is not active to send message.'')], s)
         | Some ResetChat \<Rightarrow> handleResetChatSeen env seen s
         | Some (Unknown t) \<Rightarrow>
             if t = [] then ([], s)
             else ([ConsoleWarn (''Unknown message type received: '' @ t)], s)))"

definition handleMessage :: "Env \<Rightarrow> MessageEvent \<Rightarrow> Session \<Rightarrow> Effect list \<times> Session" where
  "handleMessage env event s = handleMessageSeen env (activeRagStoreName s) event s"

text \<open>\<^verbatim>\<open>handleUnload\<close> reads the reference cell that mirrors the active store's name.\<close>

definition handleUnload :: "Env \<Rightarrow> Session \<Rightarrow> Effect list" where
  "handleUnload env s =
     (if truthy (activeRagStoreName s) then
        Issue (DeleteRagStore (valueOf (activeRagStoreName s))) #
        (case deleteRagStore env (valueOf (activeRagStoreName s)) of
           None \<Rightarrow> []
         | Some err \<Rightarrow>
             [ConsoleError ''Error deleting RAG store on unload:'' (Some (Rejected err))])
      else [])"

section \<open>The cells while a handler runs\<close>

text \<open>
  A handler is suspended at each \<^verbatim>\<open>await\<close>. The functions below list the values the
  state cells have at each suspension of a handler, in order, and at its return: the
  states the session passes through. The last one is the state the handler returns.

  The progress cell is updated from its previous value, which the code asserts to be
  non-null (\<^verbatim>\<open>prev!\<close>); it is, since \<^verbatim>\<open>handleInitChat\<close> has set it before.
\<close>

definition setProgress :: "(UploadProgress \<Rightarrow> UploadProgress) \<Rightarrow> Session \<Rightarrow> Session" where
  "setProgress f s = s\<lparr>uploadProgress := map_option f (uploadProgress s)\<rparr>"

text \<open>
  The loop over the payloads, from index \<open>i\<close> of \<open>n\<close>: the progress is written, then
  the handler waits for the file and, when there is one, for its upload.
\<close>

fun uploadCells ::
  "Env \<Rightarrow> string \<Rightarrow> nat \<Rightarrow> nat \<Rightarrow> InitChatPayloadFile list \<Rightarrow> Session \<Rightarrow> Session list"
where
  "uploadCells env ragStoreName n i [] s = []"
| "uploadCells env ragStoreName n i (p # ps) s =
     (let s' = setProgress
                 (\<lambda>prev. prev\<lparr>current := i + 1,
                               message := Some ''Fetching/Processing files...'',
                               progressFileName :=
                                 Some (''('' @ numberText (i + 1) @ ''/'' @ numberText n
                                         @ '') '' @ orElse (fileName p) ''file'')\<rparr>) s
      in s' #
         (case snd (getFileFromPayload env p) of
            Inl err \<Rightarrow> []
          | Inr file \<Rightarrow>
              s' #
              (case uploadToRagStore env ragStoreName file of
                 Some err \<Rightarrow> []
               | None \<Rightarrow> uploadCells env ragStoreName n (i + 1) ps s')))"

definition initChatCells ::
  "Env \<Rightarrow> InitChatPayloadFile list \<Rightarrow> string option \<Rightarrow> Session \<Rightarrow> Session list" where
  "initChatCells env filePayloads displayName s =
     (if filePayloads = [] then
        [snd (handleError ''No files provided for chat initialization.'' None s)]
      else
        (case initialize env of
           Some err \<Rightarrow> [snd (handleError ''Initialization failed.'' (Some (Rejected err)) s)]
         | None \<Rightarrow>
             (let s1 = s\<lparr>status := Uploading, error := None,
                         uploadProgress :=
                           Some \<lparr>current = 0, total = length filePayloads + 2,
                                 message = Some ''Creating document index...'',
                                 progressFileName = None\<rparr>\<rparr>;
                  storeName = ''chat-session-'' @ numberText (now env)
              in s1 #
                 (case createRagStore env storeName of
                    Inl err \<Rightarrow> [snd (initChatFailed env None (Rejected err) s1)]
                  | Inr ragStoreName \<Rightarrow>
                      (let s2 = setProgress
                                  (\<lambda>prev. prev\<lparr>current := 1,
                                                message := Some ''Generating embeddings...''\<rparr>)
                                  (s1\<lparr>activeRagStoreName := Some ragStoreName\<rparr>);
                           ups = uploadCells env ragStoreName (length filePayloads) 0
                                   filePayloads s2;
                           s3 = last (s2 # ups)
                       in ups @
                          (case snd (uploadFiles env ragStoreName filePayloads []) of
                             Inl err \<Rightarrow> [snd (initChatFailed env (Some ragStoreName) err s3)]
                           | Inr filesToUpload \<Rightarrow>
                               (let s4 = setProgress
                                           (\<lambda>prev. prev\<lparr>current := length filePayloads + 1,
                                                         message :=
                                                           Some ''Generating suggestions...'',
                                                         progressFileName := Some []\<rparr>) s3
                                in s4 #
                                   (case generateExampleQuestions env ragStoreName of
                                      Inl err \<Rightarrow>
                                        [snd (initChatFailed env (Some ragStoreName)
                                                (Rejected err) s4)]
                                    | Inr questions \<Rightarrow>
                                        (let s5 = s4\<lparr>exampleQuestions := questions,
                                                    uploadProgress :=
                                                      Some \<lparr>current = length filePayloads + 2,
                                                            total = length filePayloads + 2,
                                                            message = Some ''All set!'',
                                                            progressFileName = Some []\<rparr>\<rparr>
                                         in [s5,
                                             s5\<lparr>documentName :=
                                                   docName displayName filesToUpload,
                                                chatHistory := [],
                                                status := Chatting,
                                                uploadProgress := None\<rparr>])))))))))"

definition resetChatCells :: "Env \<Rightarrow> string option \<Rightarrow> Session \<Rightarrow> Session list" where
  "resetChatCells env seen s =
     (if truthy seen
      then [s\<lparr>isQueryLoading := True\<rparr>, snd (handleResetChatSeen env seen s)]
      else [snd (handleResetChatSeen env seen s)])"

definition sendMessageCells ::
  "Env \<Rightarrow> string option \<Rightarrow> string \<Rightarrow> Session \<Rightarrow> Session list" where
  "sendMessageCells env seen msg s =
     (if \<not> truthy seen then []
      else [s\<lparr>chatHistory :=
                 chatHistory s @ [\<lparr>role = User, parts = [msg], groundingChunks = None\<rparr>],
               isQueryLoading := True\<rparr>,
            snd (handleSendMessageSeen env seen msg s)])"

definition messageCells ::
  "Env \<Rightarrow> string option \<Rightarrow> MessageEvent \<Rightarrow> Session \<Rightarrow> Session list" where
  "messageCells env seen event s =
     (if \<not> fromParent event then []
      else
        (case eventData event of
           None \<Rightarrow> []
         | Some (InitChat initChatPayload) \<Rightarrow>
             if status s \<noteq> Initializing \<and> status s \<noteq> Error \<and> status s \<noteq> Chatting
             then []
             else initChatCells env (files initChatPayload) (chatDisplayName initChatPayload) s
         | Some (SendMessage msg) \<Rightarrow>
             if status s = Chatting then sendMessageCells env seen msg s else []
         | Some ResetChat \<Rightarrow> resetChatCells env seen s
         | Some (Unknown t) \<Rightarrow> []))"

section \<open>Sessions as runs of commands\<close>

text \<open>
  The mounted widget: the current state cells, the store's name in the closure of
  the registered listener, and every state the session has passed through so far.

  React renders while a handler is suspended and after it returns. The effect that
  registers the listener has the status among its dependencies: when a render shows
  a status other than the one before, the listener is registered anew, with the
  handlers of that render, which see that render's store name. A render that leaves
  the status as it was keeps the listener, whatever else has changed.
\<close>

record Widget =
  cells :: Session
  listenerStore :: "string option"
  passed :: "Session list"

definition mounted :: Widget where
  "mounted =
     \<lparr>cells = initialSession, listenerStore = activeRagStoreName initialSession,
      passed = [initialSession]\<rparr>"

definition commit :: "Widget \<Rightarrow> Session \<Rightarrow> Widget" where
  "commit w r =
     \<lparr>cells = r,
      listenerStore =
        (if status r \<noteq> status (cells w) then activeRagStoreName r else listenerStore w),
      passed = passed w @ [r]\<rparr>"

text \<open>
  What can happen to a mounted widget: a message event arrives, the user sends a
  question from the chat view (rendered in status \<open>Chatting\<close> only, with the
  \<^verbatim>\<open>handleSendMessage\<close> of the current render as its callback), or the user presses
  the button of the error screen (rendered in status \<open>Error\<close> only). Each input is
  handled to its end before the next one, against the environment it comes with.
\<close>

datatype Input = Message MessageEvent | Ask string | TryAgain

definition step :: "Widget \<times> Effect list \<Rightarrow> Env \<times> Input \<Rightarrow> Widget \<times> Effect list" where
  "step st inp =
     (case st of (w, log) \<Rightarrow>
        (case inp of
           (env, Message event) \<Rightarrow>
             (foldl commit w (messageCells env (listenerStore w) event (cells w)),
              log @ fst (handleMessageSeen env (listenerStore w) event (cells w)))
         | (env, Ask msg) \<Rightarrow>
             (if status (cells w) = Chatting
              then (foldl commit w
                      (sendMessageCells env (activeRagStoreName (cells w)) msg (cells w)),
                    log @ fst (handleSendMessage env msg (cells w)))
              else (w, log))
         | (env, TryAgain) \<Rightarrow>
             (if status (cells w) = Error then commit w (clearError (cells w)) else w, log)))"

definition run :: "(Env \<times> Input) list \<Rightarrow> Widget \<times> Effect list" where
  "run inputs = foldl step (mounted, []) inputs"

text \<open>The store names that deletion calls of a log were issued for, in order.\<close>

fun deletions :: "Effect list \<Rightarrow> string list" where
  "deletions [] = []"
| "deletions (Issue (DeleteRagStore n) # es) = n # deletions es"
| "deletions (e # es) = deletions es"

text \<open>The files that upload calls of a log were issued for, in order.\<close>

fun uploads :: "Effect list \<Rightarrow> File list" where
  "uploads [] = []"
| "uploads (Issue (UploadToRagStore n f) # es) = f # uploads es"
| "uploads (e # es) = uploads es"

section \<open>Concrete environments and inputs\<close>

text \<open>A backend on which every call succeeds, and variants on which one call is rejected.\<close>

definition goodEnv :: Env where
  "goodEnv =
     \<lparr>initialize = None,
      createRagStore = (\<lambda>displayName. Inr (''ragStores/'' @ displayName)),
      uploadToRagStore = (\<lambda>store file. None),
      generateExampleQuestions = (\<lambda>store. Inr [''What is this about?'']),
      fileSearch = (\<lambda>store question. Inr \<lparr>resultText = ''An answer.'', resultChunks = []\<rparr>),
      deleteRagStore = (\<lambda>store. None),
      fetch = (\<lambda>address. Inr \<lparr>ok = True, statusText = ''OK'',
                               blob = Inr \<lparr>blobBytes = [72, 105], blobType = ''text/plain''\<rparr>\<rparr>),
      now = 42\<rparr>"

definition searchFails :: Env where
  "searchFails = goodEnv\<lparr>fileSearch := (\<lambda>store question. Inl (ErrorObject ''503''))\<rparr>"


text \<open>Payloads: inline bytes, both sources at once, and no source.\<close>

definition inlineFile :: "string \<Rightarrow> InitChatPayloadFile" where
  "inlineFile n =
     \<lparr>fileName = n, mimeType = Some ''application/pdf'', url = None,
      base64Data = Some ''QUJD''\<rparr>"

definition doubleFile :: InitChatPayloadFile where
  "doubleFile =
     \<lparr>fileName = ''both.txt'', mimeType = Some ''text/plain'',
      url = Some ''https://host.example/doc'', base64Data = Some ''QUJD''\<rparr>"

definition sourcelessFile :: InitChatPayloadFile where
  "sourcelessFile =
     \<lparr>fileName = ''nothing.txt'', mimeType = Some ''text/plain'', url = None,
      base64Data = None\<rparr>"

definition fromHost :: "ParentMessage \<Rightarrow> MessageEvent" where
  "fromHost m = \<lparr>fromParent = True, eventData = Some m\<rparr>"

definition initChat :: "InitChatPayloadFile list \<Rightarrow> Input" where
  "initChat fs =
     Message (fromHost (InitChat \<lparr>files = fs, chatDisplayName = None, apiKey = None\<rparr>))"

text \<open>The session after a successful initialisation with one inline file.\<close>

definition chattingSession :: Session where
  "chattingSession =
     \<lparr>status = Chatting, error = None, uploadProgress = None,
      activeRagStoreName = Some ''ragStores/chat-session-42'', chatHistory = [],
      isQueryLoading = False, exampleQuestions = [''What is this about?''],
      documentName = ''A.pdf''\<rparr>"

section \<open>The concrete session is a reachable one\<close>

lemma chattingSession_reached:
  "cells (fst (run [(goodEnv, initChat [inlineFile ''A.pdf''])])) = chattingSession"
  by code_simp

section \<open>Queries\<close>

text \<open>
  C8: a \<^verbatim>\<open>sendMessage\<close> command of the host that arrives while the status is not
  \<open>Chatting\<close> is answered with one \<^verbatim>\<open>chatError\<close> event (and a console warning); the
  session, its chat history included, is returned unchanged.
\<close>

theorem sendMessage_rejected_unless_chatting:
  assumes "fromParent event" and "eventData event = Some (SendMessage msg)"
    and "status s \<noteq> Chatting"
  shows "handleMessage env event s =
           ([ConsoleWarn ''Cannot send message: Chat is not active.'',
             Post (ChatError ''Chat is not active to send message.'')], s)"
  using assms by (simp add: handleMessage_def handleMessageSeen_def)

text \<open>The theorem at a \<^verbatim>\<open>sendMessage\<close> sent to the freshly mounted widget.\<close>

theorem sendMessage_rejected_unless_chatting_witness:
  "fromParent (fromHost (SendMessage ''Hello''))
   \<and> eventData (fromHost (SendMessage ''Hello'')) = Some (SendMessage ''Hello'')
   \<and> status initialSession \<noteq> Chatting
   \<and> handleMessage goodEnv (fromHost (SendMessage ''Hello'')) initialSession =
        ([ConsoleWarn ''Cannot send message: Chat is not active.'',
          Post (ChatError ''Chat is not active to send message.'')], initialSession)"
  using sendMessage_rejected_unless_chatting
          [of "fromHost (SendMessage ''Hello'')" "''Hello''" initialSession goodEnv]
  by (simp add: fromHost_def initialSession_def)

text \<open>
  C1: the claim asks that a query whose \<^verbatim>\<open>fileSearch\<close> call fails leaves the
  session in status \<open>Chatting\<close>, with the user's message and the apology appended. The
  code appends the two messages, and then hands the failure to \<^verbatim>\<open>handleError\<close>,
  which sets the status to \<open>Error\<close> and posts \<^verbatim>\<open>chatError\<close>; the handler posts
  the same \<^verbatim>\<open>chatError\<close> once more. In the chatting session, on a backend whose
  search is rejected:
\<close>

theorem failed_query_ends_in_error:
  "handleMessage searchFails (fromHost (SendMessage ''Hello'')) chattingSession =
     ([Issue (FileSearch ''ragStores/chat-session-42'' ''Hello''),
       ConsoleError ''Failed to get response'' (Some (Rejected (ErrorObject ''503''))),
       Post (ChatError ''Failed to get response: 503''),
       Post (ChatError ''Failed to get response: 503'')],
      chattingSession
        \<lparr>chatHistory :=
           [\<lparr>role = User, parts = [''Hello''], groundingChunks = None\<rparr>, apology],
         error := Some ''Failed to get response: 503'',
         status := Error\<rparr>)"
  by (simp add: handleMessage_def handleMessageSeen_def handleSendMessageSeen_def
        searchFails_def goodEnv_def chattingSession_def handleError_def fromHost_def Let_def)

section \<open>Initialisation without files\<close>

text \<open>
  C5, as stated, fails: an \<^verbatim>\<open>initChat\<close> command with an empty file array, received
  by the freshly mounted widget, moves the status from \<open>Initializing\<close> to \<open>Error\<close>.
\<close>

theorem initChat_empty_keeps_status_counterexample:
  "status initialSession = Initializing
   \<and> status (snd (handleMessage goodEnv
        (fromHost (InitChat \<lparr>files = [], chatDisplayName = None, apiKey = None\<rparr>))
        initialSession)) = Error"
  by (simp add: handleMessage_def handleMessageSeen_def fromHost_def initialSession_def
        handleInitChat_def handleError_def Let_def)

text \<open>
  C5, amended: \<^verbatim>\<open>handleInitChat\<close> on an empty file array posts one \<^verbatim>\<open>chatError\<close>
  event, calls neither the backend nor \<^verbatim>\<open>fetch\<close> (so no store is created and nothing
  is uploaded), records the message, and sets the status to \<open>Error\<close>; nothing else of
  the session changes.
\<close>

theorem initChat_empty_files_errors:
  "handleInitChat env [] displayName s =
     ([ConsoleError ''No files provided for chat initialization.'' None,
       Post (ChatError ''No files provided for chat initialization.'')],
      s\<lparr>error := Some ''No files provided for chat initialization.'', status := Error\<rparr>)"
  by (simp add: handleInitChat_def handleError_def Let_def)

text \<open>The amended C5 at the freshly mounted widget.\<close>

theorem initChat_empty_files_errors_witness:
  "fst (handleInitChat goodEnv [] None initialSession) =
     [ConsoleError ''No files provided for chat initialization.'' None,
      Post (ChatError ''No files provided for chat initialization.'')]
   \<and> status (snd (handleInitChat goodEnv [] None initialSession)) = Error"
  using initChat_empty_files_errors [of goodEnv None initialSession]
  by simp

section \<open>Reset\<close>




section \<open>Deletion of a store after a failed initialisation\<close>

text \<open>
  C2: the claim asks that a store whose deletion was attempted when the initialisation
  failed is not deleted again by a later reset. The code does issue the second call:
  an initialisation whose only file names no source creates the store, fails, and
  deletes it, but leaves its name in the session; the reset that follows deletes the
  same name once more.
\<close>

theorem init_failure_then_reset_deletes_twice:
  "deletions (snd (run [(goodEnv, initChat [sourcelessFile]),
                        (goodEnv, Message (fromHost ResetChat))]))
     = [''ragStores/chat-session-42'', ''ragStores/chat-session-42'']"
  by code_simp

text \<open>
  The listener can also hold a name that the cells no longer hold. After the
  acknowledgment of the error, a first reset clears the store's name while the status
  stays \<open>Initializing\<close>, so the listener is not registered anew; a second reset then
  reads the old name from its closure and deletes the same store a third time.
\<close>

lemma stale_listener_deletes_again:
  "deletions (snd (run [(goodEnv, initChat [sourcelessFile]),
                        (goodEnv, TryAgain),
                        (goodEnv, Message (fromHost ResetChat)),
                        (goodEnv, Message (fromHost ResetChat))]))
     = [''ragStores/chat-session-42'', ''ragStores/chat-session-42'',
        ''ragStores/chat-session-42'']"
  by code_simp

section \<open>Facts about the effect logs and the initialisation\<close>

lemma uploads_append: "uploads (xs @ ys) = uploads xs @ uploads ys"
  by (induction xs rule: uploads.induct) simp_all

lemma deletions_append: "deletions (xs @ ys) = deletions xs @ deletions ys"
  by (induction xs rule: deletions.induct) simp_all

lemma getFileFromPayload_uploads: "uploads (fst (getFileFromPayload env p)) = []"
  by (simp add: getFileFromPayload_def)

lemma getFileFromPayload_name:
  "getFileFromPayload env p = (es, Inr f) \<Longrightarrow> name f = orElse (fileName p) ''unknown_file''"
  by (auto simp add: getFileFromPayload_def split: if_splits sum.splits option.splits)

lemma uploadFiles_uploads:
  "uploadFiles env store ps acc = (es, Inr fs) \<Longrightarrow> fs = acc @ uploads es"
proof (induction ps arbitrary: acc es fs)
  case Nil
  then show ?case by simp
next
  case (Cons p ps)
  from Cons.prems obtain e1 f e2 where
    g: "getFileFromPayload env p = (e1, Inr f)" and
    u: "uploadToRagStore env store f = None" and
    r: "uploadFiles env store ps (acc @ [f]) = (e2, Inr fs)" and
    e: "es = e1 @ [Issue (UploadToRagStore store f)] @ e2"
    by (auto split: prod.splits sum.splits option.splits)
  from Cons.IH [OF r] have "fs = (acc @ [f]) @ uploads e2" .
  moreover from g have "uploads e1 = []"
    using getFileFromPayload_uploads [of env p] by simp
  ultimately show ?case using e by (simp add: uploads_append)
qed

lemma uploadFiles_names:
  "uploadFiles env store ps acc = (es, Inr fs) \<Longrightarrow>
     map name fs = map name acc @ map (\<lambda>p. orElse (fileName p) ''unknown_file'') ps"
proof (induction ps arbitrary: acc es fs)
  case Nil
  then show ?case by simp
next
  case (Cons p ps)
  from Cons.prems obtain e1 f e2 where
    g: "getFileFromPayload env p = (e1, Inr f)" and
    r: "uploadFiles env store ps (acc @ [f]) = (e2, Inr fs)"
    by (auto split: prod.splits sum.splits option.splits)
  from Cons.IH [OF r] getFileFromPayload_name [OF g] show ?case by simp
qed

lemma handleError_status: "status (snd (handleError m e s)) = Error"
  by (simp add: handleError_def Let_def)

lemma handleError_uploads: "uploads (fst (handleError m e s)) = []"
  by (simp add: handleError_def Let_def)

lemma initChatFailed_status: "status (snd (initChatFailed env n err s)) = Error"
  by (simp add: initChatFailed_def handleError_def Let_def split: prod.splits)

lemma initChatFailed_uploads: "uploads (fst (initChatFailed env n err s)) = []"
  by (simp add: initChatFailed_def handleError_def Let_def uploads_append split: prod.splits option.splits)

lemma initChatFailed_statusD: "initChatFailed env n err s = (es, s') \<Longrightarrow> status s' = Error"
  using initChatFailed_status [of env n err s] by simp

lemma handleError_statusD: "handleError m e s = (es, s') \<Longrightarrow> status s' = Error"
  using handleError_status [of m e s] by simp

lemma handleInitChat_success:
  assumes "status (snd (handleInitChat env ps dn s)) = Chatting"
  shows "\<exists>store ups fs.
           uploadFiles env store ps [] = (ups, Inr fs)
           \<and> fst (handleInitChat env ps dn s) =
               [Issue Initialize, Issue (CreateRagStore (''chat-session-'' @ numberText (now env)))]
                 @ ups @ [Issue (GenerateExampleQuestions store), Post (ChatReady (docName dn fs))]
           \<and> documentName (snd (handleInitChat env ps dn s)) = docName dn fs"
  using assms
  by (auto simp add: handleInitChat_def handleError_status Let_def
        dest: initChatFailed_statusD handleError_statusD
        split: if_splits option.splits sum.splits prod.splits)

section \<open>The document label\<close>

text \<open>
  C6: after a successful initialisation (the handler ends in status \<open>Chatting\<close>), the
  files uploaded are those of the payloads, each named by its payload's file name
  (\<^verbatim>\<open>unknown_file\<close> when that is empty), and the document name is the display name
  when one is given (a non-empty string), else the single file's name when one file
  was uploaded, else the two names joined by \<^verbatim>\<open> & \<close> when two were, else the count
  followed by \<^verbatim>\<open> documents\<close>; the \<^verbatim>\<open>chatReady\<close> event carries that name.
\<close>

theorem documentName_after_initChat:
  assumes "status (snd (handleInitChat env ps dn s)) = Chatting"
  shows "map name (uploads (fst (handleInitChat env ps dn s))) =
           map (\<lambda>p. orElse (fileName p) ''unknown_file'') ps
       \<and> documentName (snd (handleInitChat env ps dn s)) =
          (let fs = uploads (fst (handleInitChat env ps dn s)) in
           if truthy dn then valueOf dn
           else if length fs = 1 then name (fs ! 0)
           else if length fs = 2 then name (fs ! 0) @ '' & '' @ name (fs ! 1)
           else numberText (length fs) @ '' documents'')
       \<and> Post (ChatReady (documentName (snd (handleInitChat env ps dn s))))
            \<in> set (fst (handleInitChat env ps dn s))"
proof -
  from handleInitChat_success [OF assms] obtain store ups fs where
    u: "uploadFiles env store ps [] = (ups, Inr fs)" and
    e: "fst (handleInitChat env ps dn s) =
          [Issue Initialize, Issue (CreateRagStore (''chat-session-'' @ numberText (now env)))]
            @ ups @ [Issue (GenerateExampleQuestions store), Post (ChatReady (docName dn fs))]" and
    d: "documentName (snd (handleInitChat env ps dn s)) = docName dn fs"
    by blast
  from uploadFiles_uploads [OF u] have fs: "fs = uploads ups" by simp
  have up: "uploads (fst (handleInitChat env ps dn s)) = fs"
    by (simp add: e uploads_append fs)
  from uploadFiles_names [OF u] have names:
    "map name fs = map (\<lambda>p. orElse (fileName p) ''unknown_file'') ps" by simp
  have m: "Post (ChatReady (documentName (snd (handleInitChat env ps dn s))))
             \<in> set (fst (handleInitChat env ps dn s))"
    by (simp add: e d)
  have n: "map name (uploads (fst (handleInitChat env ps dn s))) =
             map (\<lambda>p. orElse (fileName p) ''unknown_file'') ps"
    by (simp only: up names)
  have l: "documentName (snd (handleInitChat env ps dn s)) =
          (let fs = uploads (fst (handleInitChat env ps dn s)) in
           if truthy dn then valueOf dn
           else if length fs = 1 then name (fs ! 0)
           else if length fs = 2 then name (fs ! 0) @ '' & '' @ name (fs ! 1)
           else numberText (length fs) @ '' documents'')"
    unfolding up d docName_def Let_def by (rule refl)
  from n l m show ?thesis by (intro conjI)
qed

text \<open>C6 at two inline files without a display name: the label is \<^verbatim>\<open>A.pdf & B.pdf\<close>.\<close>

theorem documentName_after_initChat_witness:
  "status (snd (handleInitChat goodEnv [inlineFile ''A.pdf'', inlineFile ''B.pdf''] None initialSession)) = Chatting
   \<and> documentName (snd (handleInitChat goodEnv [inlineFile ''A.pdf'', inlineFile ''B.pdf''] None initialSession)) = ''A.pdf & B.pdf''"
proof -
  have h: "status (snd (handleInitChat goodEnv [inlineFile ''A.pdf'', inlineFile ''B.pdf''] None initialSession)) = Chatting"
    by code_simp
  have u: "map name (uploads (fst (handleInitChat goodEnv [inlineFile ''A.pdf'', inlineFile ''B.pdf''] None initialSession))) = [''A.pdf'', ''B.pdf'']"
    using documentName_after_initChat [OF h] by (simp add: inlineFile_def orElse_def)
  then have l: "length (uploads (fst (handleInitChat goodEnv [inlineFile ''A.pdf'', inlineFile ''B.pdf''] None initialSession))) = 2"
    by (metis length_map length_Cons list.size(3) Suc_1 One_nat_def)
  show ?thesis using h documentName_after_initChat [OF h] u l
    by (auto simp add: Let_def)
qed

section \<open>A payload without a source\<close>

lemma uploadFiles_stops:
  assumes "\<not> truthy (url p)" and "\<not> truthy (base64Data p)"
  shows "fst (uploadFiles env store (before @ p # after) acc) = fst (uploadFiles env store before acc)
       \<and> isl (snd (uploadFiles env store (before @ p # after) acc))"
proof (induction before arbitrary: acc)
  case Nil
  from assms show ?case by (simp add: getFileFromPayload_def)
next
  case (Cons q qs)
  then show ?case
    by (simp add: case_prod_beta split: sum.splits option.splits)
qed

lemma uploadFiles_bound:
  "length (uploads (fst (uploadFiles env store ps acc))) \<le> length ps"
proof (induction ps arbitrary: acc)
  case Nil
  then show ?case by simp
next
  case (Cons p ps)
  have "uploads (fst (getFileFromPayload env p)) = []"
    by (rule getFileFromPayload_uploads)
  with Cons.IH show ?case
    by (simp add: case_prod_beta uploads_append le_SucI split: sum.splits option.splits)
qed

text \<open>
  C7: a payload in which neither \<^verbatim>\<open>url\<close> nor \<^verbatim>\<open>base64Data\<close> is populated fails to
  resolve with the validation error, without any call. In the loop of the
  initialisation, the effects issued are exactly those for the payloads before it, so
  no upload is issued for it or for a later file: at most one upload per earlier
  payload is in the log, and the initialisation ends in status \<open>Error\<close>.
\<close>

theorem sourceless_payload_fails_before_upload:
  assumes "\<not> truthy (url p)" and "\<not> truthy (base64Data p)"
  shows "getFileFromPayload env p = ([], Inl InvalidFilePayload)
       \<and> fst (uploadFiles env store (before @ p # after) acc) = fst (uploadFiles env store before acc)
       \<and> isl (snd (uploadFiles env store (before @ p # after) acc))
       \<and> length (uploads (fst (handleInitChat env (before @ p # after) dn s))) \<le> length before
       \<and> status (snd (handleInitChat env (before @ p # after) dn s)) = Error"
proof -
  have a: "getFileFromPayload env p = ([], Inl InvalidFilePayload)"
    using assms by (simp add: getFileFromPayload_def)
  note b = uploadFiles_stops [OF assms, of env]
  have c: "length (uploads (fst (handleInitChat env (before @ p # after) dn s))) \<le> length before
       \<and> status (snd (handleInitChat env (before @ p # after) dn s)) = Error"
  proof (cases "initialize env")
    case (Some t)
    then show ?thesis
      by (simp add: handleInitChat_def handleError_def Let_def)
  next
    case None
    show ?thesis
    proof (cases "createRagStore env (''chat-session-'' @ numberText (now env))")
      case (Inl t)
      with None show ?thesis
        by (simp add: handleInitChat_def Let_def case_prod_beta uploads_append
              initChatFailed_uploads initChatFailed_status)
    next
      case (Inr st)
      from b [of st before after "[]"] obtain err where
        u: "uploadFiles env st (before @ p # after) [] =
              (fst (uploadFiles env st before []), Inl err)"
        by (cases "uploadFiles env st (before @ p # after) []") (auto simp: isl_def)
      have "length (uploads (fst (uploadFiles env st before []))) \<le> length before"
        by (rule uploadFiles_bound)
      with None Inr u show ?thesis
        by (simp add: handleInitChat_def Let_def case_prod_beta uploads_append
              initChatFailed_uploads initChatFailed_status)
    qed
  qed
  from a b c show ?thesis by simp
qed

text \<open>C7 at a list of three payloads whose second one names no source.\<close>

theorem sourceless_payload_fails_before_upload_witness:
  "\<not> truthy (url sourcelessFile) \<and> \<not> truthy (base64Data sourcelessFile)
   \<and> getFileFromPayload goodEnv sourcelessFile = ([], Inl InvalidFilePayload)
   \<and> length (uploads (fst (handleInitChat goodEnv
          ([inlineFile ''A.pdf''] @ sourcelessFile # [inlineFile ''B.pdf'']) None initialSession)))
        \<le> length [inlineFile ''A.pdf'']
   \<and> status (snd (handleInitChat goodEnv
          ([inlineFile ''A.pdf''] @ sourcelessFile # [inlineFile ''B.pdf'']) None initialSession))
        = Error"
proof -
  have h: "\<not> truthy (url sourcelessFile)" "\<not> truthy (base64Data sourcelessFile)"
    by (simp_all add: sourcelessFile_def)
  from sourceless_payload_fails_before_upload
         [OF h, of goodEnv "''s''" "[inlineFile ''A.pdf'']" "[inlineFile ''B.pdf'']" "[]" None
            initialSession]
    h
  show ?thesis by simp
qed

section \<open>A payload with both sources\<close>

text \<open>
  C10: when \<^verbatim>\<open>url\<close> is populated, the resolver takes the fetch branch whatever
  \<^verbatim>\<open>base64Data\<close> holds: the result does not depend on that field, the one call issued
  is the fetch of the address, and neither the validation error nor a decoding
  error is raised.
\<close>

theorem url_branch_ignores_base64:
  assumes "truthy (url p)"
  shows "getFileFromPayload env (p\<lparr>base64Data := d\<rparr>) = getFileFromPayload env p
       \<and> fst (getFileFromPayload env p) = [Issue (Fetch (valueOf (url p)))]
       \<and> snd (getFileFromPayload env p) \<noteq> Inl InvalidFilePayload
       \<and> snd (getFileFromPayload env p) \<noteq> Inl InvalidCharacter"
  using assms
  by (auto simp add: getFileFromPayload_def split: sum.splits)

text \<open>C10 at a payload that populates both fields.\<close>

theorem url_branch_ignores_base64_witness:
  "truthy (url doubleFile) \<and> truthy (base64Data doubleFile)
   \<and> getFileFromPayload goodEnv (doubleFile\<lparr>base64Data := None\<rparr>)
       = getFileFromPayload goodEnv doubleFile
   \<and> fst (getFileFromPayload goodEnv doubleFile) = [Issue (Fetch ''https://host.example/doc'')]
   \<and> snd (getFileFromPayload goodEnv doubleFile) \<noteq> Inl InvalidFilePayload"
proof -
  have h: "truthy (url doubleFile)" by (simp add: doubleFile_def)
  from url_branch_ignores_base64 [OF h, of goodEnv None] h show ?thesis
    by (simp add: doubleFile_def)
qed

section \<open>Base64: decoding what was encoded\<close>

lemma small_div: "(b::nat) < 256 \<Longrightarrow> b div 16 < 16" "(b::nat) < 256 \<Longrightarrow> b div 64 < 4"
  by (simp_all add: less_mult_imp_div_less)

lemma first_octet: assumes "b < 256" shows "(a div 4) * 4 + ((a mod 4) * 16 + b div 16) div 16 = (a::nat)"
proof -
  have "((a mod 4) * 16 + b div 16) div 16 = a mod 4"
    using small_div(1) [OF assms] by simp
  then show ?thesis by simp
qed

lemma second_octet: assumes "b < 256" "c < 256"
  shows "(((a mod 4) * 16 + b div 16) mod 16) * 16 + ((b mod 16) * 4 + c div 64) div 4 = (b::nat)"
proof -
  have "((a mod 4) * 16 + b div 16) mod 16 = b div 16"
    using small_div(1) [OF assms(1)] by simp
  moreover have "((b mod 16) * 4 + c div 64) div 4 = b mod 16"
    using small_div(2) [OF assms(2)] by simp
  ultimately show ?thesis by simp
qed

lemma second_octet_short: assumes "b < 256"
  shows "(((a mod 4) * 16 + b div 16) mod 16) * 16 + ((b mod 16) * 4) div 4 = (b::nat)"
proof -
  have "((a mod 4) * 16 + b div 16) mod 16 = b div 16"
    using small_div(1) [OF assms(1)] by simp
  then show ?thesis by simp
qed

lemma third_octet: assumes "c < 256"
  shows "(((b mod 16) * 4 + c div 64) mod 4) * 64 + c mod 64 = (c::nat)"
proof -
  have "((b mod 16) * 4 + c div 64) mod 4 = c div 64"
    using small_div(2) [OF assms(1)] by simp
  then show ?thesis by simp
qed

lemma octets_sextets: "\<forall>x\<in>set ns. x < 256 \<Longrightarrow> octets (sextets ns) = ns"
proof (induction ns rule: sextets.induct)
  case (1 a b c r)
  then have b: "b < 256" and c: "c < 256" and r: "\<forall>x\<in>set r. x < 256" by simp_all
  from 1(1) [OF r] first_octet [OF b, of a] second_octet [OF b c, of a] third_octet [OF c, of b] show ?case by simp
next
  case (2 a b)
  then have b: "b < 256" by simp
  from first_octet [OF b, of a] second_octet_short [OF b, of a] show ?case by simp
next
  case (3 a)
  have "(a div 4) * 4 + ((a mod 4) * 16) div 16 = a" by simp
  then show ?case by simp
next
  case 4
  then show ?case by simp
qed

lemma b64_table:
  "list_all (\<lambda>n. b64Index (b64Char n) = Some n \<and> b64Char n \<noteq> CHR ''='' \<and> \<not> asciiWhitespace (b64Char n)) [0..<64]"
  by code_simp

lemma b64_char_facts:
  assumes "n < 64"
  shows "b64Index (b64Char n) = Some n" and "b64Char n \<noteq> CHR ''=''"
    and "\<not> asciiWhitespace (b64Char n)"
  using b64_table assms by (simp_all add: list_all_iff)

lemma sextets_small: "\<forall>x\<in>set ns. x < 256 \<Longrightarrow> \<forall>y\<in>set (sextets ns). y < 64"
  by (induction ns rule: sextets.induct) auto

lemma length_sextets: "length (sextets ns) = (4 * length ns + 2) div 3"
  by (induction ns rule: sextets.induct) simp_all

lemma those_b64Index:
  "\<forall>y\<in>set ss. y < 64 \<Longrightarrow> those (map b64Index (map b64Char ss)) = Some ss"
  by (induction ss) (simp_all add: b64_char_facts(1))

lemma padding_cases:
  "padding n = (if n mod 3 = 0 then [] else if n mod 3 = 1 then ''=='' else ''='')"
proof -
  have "n mod 3 = 0 \<or> n mod 3 = 1 \<or> n mod 3 = 2" by arith
  then show ?thesis by (auto simp add: padding_def numeral_2_eq_2)
qed

lemma no_whitespace:
  assumes "\<forall>y\<in>set ss. y < 64"
  shows "filter (\<lambda>c. \<not> asciiWhitespace c) (map b64Char ss @ padding n) = map b64Char ss @ padding n"
proof -
  have "\<not> asciiWhitespace (CHR ''='')" by (simp add: asciiWhitespace_def)
  then have "\<forall>c\<in>set (padding n). \<not> asciiWhitespace c" by (simp add: padding_def)
  moreover from assms have "\<forall>c\<in>set (map b64Char ss). \<not> asciiWhitespace c"
    by (auto simp add: b64_char_facts(3))
  ultimately show ?thesis by (auto simp add: filter_id_conv)
qed

lemma length_sextets_cases:
  "length (sextets ns) =
     (if length ns mod 3 = 0 then 4 * (length ns div 3)
      else if length ns mod 3 = 1 then 4 * (length ns div 3) + 2
      else 4 * (length ns div 3) + 3)"
proof -
  define n k where "n = length ns" and "k = length ns div 3"
  have c: "n mod 3 = 0 \<or> n mod 3 = 1 \<or> n mod 3 = 2" by arith
  have n: "n = 3 * k + n mod 3" by (simp add: n_def k_def)
  have "(4 * n + 2) div 3 =
     (if n mod 3 = 0 then 4 * k else if n mod 3 = 1 then 4 * k + 2 else 4 * k + 3)"
  proof -
    consider "n = 3 * k" "n mod 3 = 0" | "n = 3 * k + 1" "n mod 3 = 1" | "n = 3 * k + 2" "n mod 3 = 2"
      using c n by auto
    then show ?thesis
    proof cases
      case 1
      have "(4 * (3 * k) + 2) div 3 = 4 * k" by simp
      with 1 show ?thesis by simp
    next
      case 2
      have "(4 * (3 * k + 1) + 2) div 3 = (3 * (4 * k + 2)) div 3" by (simp add: algebra_simps)
      also have "\<dots> = 4 * k + 2" by (rule nonzero_mult_div_cancel_left) simp
      finally show ?thesis using 2 by simp
    next
      case 3
      have "(4 * (3 * k + 2) + 2) div 3 = (1 + 3 * (4 * k + 3)) div 3" by (simp add: algebra_simps)
      also have "\<dots> = 4 * k + 3" by simp
      finally show ?thesis using 3 by simp
    qed
  qed
  then show ?thesis by (simp add: length_sextets n_def k_def)
qed

lemma last_body:
  assumes "\<forall>y\<in>set ss. y < 64" and "ss \<noteq> []"
  shows "last (map b64Char ss) \<noteq> CHR ''=''"
  using assms by (simp add: last_map b64_char_facts(2))

lemma stripPadding_encoded:
  assumes "\<forall>x\<in>set ns. x < 256"
  shows "stripPadding (map b64Char (sextets ns) @ padding (length ns)) = map b64Char (sextets ns)"
proof -
  let ?ss = "sextets ns" and ?n = "length ns"
  from assms have small: "\<forall>y\<in>set ?ss. y < 64" by (rule sextets_small)
  have "?n mod 3 = 0 \<or> ?n mod 3 = 1 \<or> ?n mod 3 = 2" by arith
  then consider (zero) "?n mod 3 = 0" | (one) "?n mod 3 = 1" | (two) "?n mod 3 = 2" by auto
  then show ?thesis
  proof cases
    case zero
    then have l: "length ?ss = 4 * (?n div 3)" by (simp add: length_sextets_cases)
    show ?thesis
    proof (cases "?ss = []")
      case True
      with zero show ?thesis by (simp add: stripPadding_def padding_cases)
    next
      case False
      with small have "last (map b64Char ?ss) \<noteq> CHR ''=''" by (rule last_body)
      with zero l show ?thesis by (simp add: stripPadding_def padding_cases)
    qed
  next
    case one
    then have l: "length ?ss = 4 * (?n div 3) + 2" by (simp add: length_sextets_cases)
    have "butlast (butlast (map b64Char ?ss @ ''=='')) = map b64Char ?ss"
      and "last (butlast (map b64Char ?ss @ ''=='')) = CHR ''=''"
      by (simp_all add: butlast_append)
    with one l show ?thesis by (simp add: stripPadding_def padding_cases)
  next
    case two
    then have l: "length ?ss = 4 * (?n div 3) + 3" by (simp add: length_sextets_cases)
    then have "?ss \<noteq> []" by auto
    with small have "last (map b64Char ?ss) \<noteq> CHR ''=''" by (rule last_body)
    with two l \<open>?ss \<noteq> []\<close> show ?thesis by (simp add: stripPadding_def padding_cases last_map)
  qed
qed

lemma atob_encodeBase64: "atob (encodeBase64 bs) = Some (map (\<lambda>b. char_of (unat b)) bs)"
proof -
  let ?ns = "map unat bs"
  have "unat b < 2 ^ LENGTH(8)" for b :: byte by (rule unsigned_less)
  then have bytes: "\<forall>x\<in>set ?ns. x < 256" by auto
  then have small: "\<forall>y\<in>set (sextets ?ns). y < 64" by (rule sextets_small)
  have d: "stripPadding (filter (\<lambda>c. \<not> asciiWhitespace c) (encodeBase64 bs)) =
             map b64Char (sextets ?ns)"
    using no_whitespace [OF small, of "length bs"] stripPadding_encoded [OF bytes]
    by (simp add: encodeBase64_def)
  have l: "length (map b64Char (sextets ?ns)) mod 4 \<noteq> 1"
    by (simp add: length_sextets_cases) presburger
  have "atob (encodeBase64 bs) = Some (map char_of ?ns)"
    using l
    by (simp add: atob_def d those_b64Index [OF small] octets_sextets [OF bytes] del: map_map)
  then show ?thesis by (simp add: comp_def)
qed

lemma bytes_of_binary_string:
  "map (\<lambda>ch. of_nat (of_char ch :: nat)) (map (\<lambda>b. char_of (unat b)) bs) = (bs :: byte list)"
proof -
  have "of_nat (of_char (char_of (unat b) :: char) :: nat) = b" for b :: byte
  proof -
    have "unat b < 256" using unsigned_less [of b] by simp
    then show ?thesis by simp
  qed
  then show ?thesis by (simp add: comp_def)
qed

lemma encodeBase64_nonempty: "bs \<noteq> [] \<Longrightarrow> encodeBase64 bs \<noteq> []"
proof -
  assume "bs \<noteq> []"
  then have "1 \<le> length (map unat bs)" by (cases bs) simp_all
  then have "0 < length (sextets (map unat bs))"
    unfolding length_sextets by (simp add: div_greater_zero_iff)
  then show ?thesis by (simp add: encodeBase64_def)
qed

lemma lowerChar_fixed:
  "lowerChar c = c \<longleftrightarrow> \<not> (65 \<le> (of_char c :: nat) \<and> (of_char c :: nat) \<le> 90)"
proof (cases "65 \<le> (of_char c :: nat) \<and> (of_char c :: nat) \<le> 90")
  case True
  then have "(of_char (lowerChar c) :: nat) = of_char c + 32"
    by (simp add: lowerChar_def Let_def)
  then have "lowerChar c \<noteq> c" by auto
  with True show ?thesis by simp
next
  case False
  then show ?thesis by (auto simp add: lowerChar_def Let_def)
qed

lemma map_lowerChar_fixed:
  "map lowerChar t = t
     \<longleftrightarrow> list_all (\<lambda>c. \<not> (65 \<le> (of_char c :: nat) \<and> (of_char c :: nat) \<le> 90)) t"
  by (induction t) (simp_all add: lowerChar_fixed)

lemma normalizeType_fixed:
  "normalizeType t = t
     \<longleftrightarrow> list_all (\<lambda>c. 32 \<le> (of_char c :: nat) \<and> (of_char c :: nat) \<le> 126) t
         \<and> list_all (\<lambda>c. \<not> (65 \<le> (of_char c :: nat) \<and> (of_char c :: nat) \<le> 90)) t"
proof (cases "list_all (\<lambda>c. 32 \<le> (of_char c :: nat) \<and> (of_char c :: nat) \<le> 126) t")
  case True
  then show ?thesis by (simp add: normalizeType_def map_lowerChar_fixed)
next
  case False
  then have "t \<noteq> []" by auto
  with False show ?thesis by (auto simp add: normalizeType_def)
qed

text \<open>
  C9, as stated, fails in three ways. The empty byte sequence encodes to the empty
  string, which the resolver takes for a missing \<^verbatim>\<open>base64Data\<close>: the payload is
  rejected. An empty declared type is taken for a missing \<^verbatim>\<open>mimeType\<close>: rejected
  as well. And the file built for the declared type \<^verbatim>\<open>Application/PDF\<close> has the type
  \<^verbatim>\<open>application/pdf\<close>.
\<close>

theorem base64_round_trip_counterexample:
  "getFileFromPayload goodEnv
     \<lparr>fileName = ''empty.txt'', mimeType = Some ''text/plain'', url = None,
      base64Data = Some (encodeBase64 [])\<rparr>
    = ([], Inl InvalidFilePayload)
   \<and> getFileFromPayload goodEnv
        \<lparr>fileName = ''abc.txt'', mimeType = Some [], url = None,
         base64Data = Some (encodeBase64 [65, 66, 67])\<rparr>
       = ([], Inl InvalidFilePayload)
   \<and> getFileFromPayload goodEnv
        \<lparr>fileName = ''abc.pdf'', mimeType = Some ''Application/PDF'', url = None,
         base64Data = Some (encodeBase64 [65, 66, 67])\<rparr>
       = ([], Inr \<lparr>name = ''abc.pdf'', fileType = ''application/pdf'',
                   content = [65, 66, 67]\<rparr>)
   \<and> ''application/pdf'' \<noteq> ''Application/PDF''"
  by code_simp

text \<open>
  C9, amended: the payload carries the bytes as base64 in \<^verbatim>\<open>base64Data\<close>, with the
  declared type in \<^verbatim>\<open>mimeType\<close> and no address. For every non-empty byte sequence
  and every non-empty declared type, it resolves, without any call, to a file whose
  content is the original byte sequence exactly and whose type is the declared type as
  the \<^verbatim>\<open>File\<close> constructor normalises it. That type equals the declared one exactly
  when the declared type consists of characters from U+0020 to U+007E with no
  upper-case letter among them. When the byte sequence or the declared type is empty,
  the resolution fails with the validation error.
\<close>

theorem base64_round_trip:
  assumes "\<not> truthy u"
  shows "(bs \<noteq> [] \<and> mime \<noteq> []
            \<longrightarrow> getFileFromPayload env
                  \<lparr>fileName = n, mimeType = Some mime, url = u,
                   base64Data = Some (encodeBase64 bs)\<rparr>
                = ([], Inr \<lparr>name = orElse n ''unknown_file'', fileType = normalizeType mime,
                            content = bs\<rparr>))
       \<and> (normalizeType mime = mime
            \<longleftrightarrow> list_all (\<lambda>c. 32 \<le> (of_char c :: nat) \<and> (of_char c :: nat) \<le> 126) mime
                \<and> list_all (\<lambda>c. \<not> (65 \<le> (of_char c :: nat) \<and> (of_char c :: nat) \<le> 90)) mime)
       \<and> (bs = [] \<or> mime = []
            \<longrightarrow> getFileFromPayload env
                  \<lparr>fileName = n, mimeType = Some mime, url = u,
                   base64Data = Some (encodeBase64 bs)\<rparr>
                = ([], Inl InvalidFilePayload))"
proof -
  have a: "getFileFromPayload env
             \<lparr>fileName = n, mimeType = Some mime, url = u, base64Data = Some (encodeBase64 bs)\<rparr>
           = ([], Inr \<lparr>name = orElse n ''unknown_file'', fileType = normalizeType mime,
                       content = bs\<rparr>)"
    if "bs \<noteq> []" and "mime \<noteq> []"
    using assms that encodeBase64_nonempty [OF that(1)]
    by (simp add: getFileFromPayload_def atob_encodeBase64 bytes_of_binary_string
          del: map_map)
  have "encodeBase64 [] = []" by (simp add: encodeBase64_def padding_def)
  then have c: "getFileFromPayload env
             \<lparr>fileName = n, mimeType = Some mime, url = u, base64Data = Some (encodeBase64 bs)\<rparr>
           = ([], Inl InvalidFilePayload)"
    if "bs = [] \<or> mime = []"
    using assms that by (auto simp add: getFileFromPayload_def)
  from a normalizeType_fixed [of mime] c show ?thesis by blast
qed

text \<open>
  The amended C9 at the three bytes of \<^verbatim>\<open>ABC\<close>, which encode to \<^verbatim>\<open>QUJD\<close>, with the
  declared type \<^verbatim>\<open>text/plain\<close>, and at the empty byte sequence.
\<close>

theorem base64_round_trip_witness:
  "\<not> truthy None \<and> [65, 66, 67 :: byte] \<noteq> [] \<and> ''text/plain'' \<noteq> []
   \<and> encodeBase64 [65, 66, 67] = ''QUJD''
   \<and> getFileFromPayload goodEnv
        \<lparr>fileName = ''abc.txt'', mimeType = Some ''text/plain'', url = None,
         base64Data = Some (encodeBase64 [65, 66, 67])\<rparr>
       = ([], Inr \<lparr>name = ''abc.txt'', fileType = ''text/plain'', content = [65, 66, 67]\<rparr>)
   \<and> normalizeType ''text/plain'' = ''text/plain''
   \<and> getFileFromPayload goodEnv
        \<lparr>fileName = ''abc.txt'', mimeType = Some ''text/plain'', url = None,
         base64Data = Some (encodeBase64 [])\<rparr>
       = ([], Inl InvalidFilePayload)"
proof -
  have h: "\<not> truthy None" by simp
  have e: "encodeBase64 [65, 66, 67] = ''QUJD''" by code_simp
  have t: "normalizeType ''text/plain'' = ''text/plain''" by code_simp
  from base64_round_trip [OF h, of "[65, 66, 67]" "''text/plain''" goodEnv "''abc.txt''"]
    base64_round_trip [OF h, of "[]" "''text/plain''" goodEnv "''abc.txt''"] e t
  show ?thesis by (simp add: orElse_def)
qed

section \<open>The states a handler passes through\<close>

lemma setProgress_other: "(setProgress f s)\<lparr>uploadProgress := x\<rparr> = s\<lparr>uploadProgress := x\<rparr>"
  by (simp add: setProgress_def)

lemma uploadCells_progress_only:
  "r \<in> set (uploadCells env st n i ps s) \<Longrightarrow> r\<lparr>uploadProgress := x\<rparr> = s\<lparr>uploadProgress := x\<rparr>"
proof (induction ps arbitrary: i s)
  case Nil
  then show ?case by simp
next
  case (Cons p ps)
  then show ?case
    by (auto simp add: Let_def setProgress_other split: sum.splits option.splits
          dest!: Cons.IH)
qed

lemma last_uploadCells_progress_only:
  "(last (s # uploadCells env st n i ps s))\<lparr>uploadProgress := x\<rparr> = s\<lparr>uploadProgress := x\<rparr>"
proof (cases "uploadCells env st n i ps s = []")
  case True
  then show ?thesis by simp
next
  case False
  then have "last (s # uploadCells env st n i ps s) \<in> set (uploadCells env st n i ps s)"
    by simp
  then show ?thesis by (rule uploadCells_progress_only)
qed

lemma initChatFailed_progress_only:
  assumes "r\<lparr>uploadProgress := None\<rparr> = s\<lparr>uploadProgress := None\<rparr>"
  shows "snd (initChatFailed env x err r) = snd (initChatFailed env x err s)"
proof -
  define e where "e = error (snd (initChatFailed env x err s))"
  have shape: "snd (initChatFailed env x err t) =
          (t\<lparr>uploadProgress := None\<rparr>)\<lparr>error := e, status := Error\<rparr>" for t
    by (simp add: e_def initChatFailed_def handleError_def Let_def case_prod_beta)
  show ?thesis by (simp only: shape assms)
qed

lemma progress_only_fields:
  assumes "r\<lparr>uploadProgress := x\<rparr> = s\<lparr>uploadProgress := x\<rparr>"
  shows "status r = status s" and "activeRagStoreName r = activeRagStoreName s"
proof -
  from assms have "status (r\<lparr>uploadProgress := x\<rparr>) = status (s\<lparr>uploadProgress := x\<rparr>)"
    and "activeRagStoreName (r\<lparr>uploadProgress := x\<rparr>) = activeRagStoreName (s\<lparr>uploadProgress := x\<rparr>)"
    by simp_all
  then show "status r = status s" and "activeRagStoreName r = activeRagStoreName s"
    by simp_all
qed

lemma uploadCells_fields:
  assumes "r \<in> set (uploadCells env st n i ps s)"
  shows "status r = status s" and "activeRagStoreName r = activeRagStoreName s"
  using progress_only_fields [OF uploadCells_progress_only [OF assms, where x = None]] by simp_all

lemma last_uploadCells_fields:
  "status (last (s # uploadCells env st n i ps s)) = status s"
  "activeRagStoreName (last (s # uploadCells env st n i ps s)) = activeRagStoreName s"
  using progress_only_fields [OF last_uploadCells_progress_only [where s = s and env = env and st = st and n = n and i = i and ps = ps and x = None]]
  by simp_all

lemma initChatFailed_store:
  "activeRagStoreName (snd (initChatFailed env x err s)) = activeRagStoreName s"
  by (simp add: initChatFailed_def handleError_def Let_def case_prod_beta)


lemma initChatCells_created:
  assumes "ps \<noteq> []" and "initialize env = None"
    and "createRagStore env (''chat-session-'' @ numberText (now env)) = Inr n"
  shows "\<exists>first rest. initChatCells env ps dn s = first # rest \<and> rest \<noteq> []
           \<and> status first = Uploading
           \<and> (\<forall>r\<in>set rest. activeRagStoreName r = Some n)
           \<and> (\<forall>r\<in>set (butlast rest). status r = Uploading)
           \<and> (status (last rest) = Chatting \<or> status (last rest) = Error)
           \<and> last rest = snd (handleInitChat env ps dn s)"
proof -
  define s1 where "s1 = s\<lparr>status := Uploading, error := None,
                uploadProgress :=
                  Some \<lparr>current = 0, total = length ps + 2,
                        message = Some ''Creating document index...'',
                        progressFileName = None\<rparr>\<rparr>"
  define t2 where "t2 = s1\<lparr>activeRagStoreName := Some n\<rparr>"
  define s2 where "s2 = setProgress
               (\<lambda>prev. prev\<lparr>current := 1, message := Some ''Generating embeddings...''\<rparr>) t2"
  define ups where "ups = uploadCells env n (length ps) 0 ps s2"
  define s3 where "s3 = last (s2 # ups)"
  define s4 where "s4 = setProgress
               (\<lambda>prev. prev\<lparr>current := length ps + 1,
                             message := Some ''Generating suggestions...'',
                             progressFileName := Some []\<rparr>) s3"
  note defs = s1_def t2_def s2_def ups_def s3_def s4_def
  have s1: "status s1 = Uploading" by (simp add: s1_def)
  have t2: "status t2 = Uploading" "activeRagStoreName t2 = Some n"
    by (simp_all add: t2_def s1_def)
  have p2: "s2\<lparr>uploadProgress := x\<rparr> = t2\<lparr>uploadProgress := x\<rparr>" for x
    by (simp add: s2_def setProgress_other)
  have p3: "s3\<lparr>uploadProgress := x\<rparr> = t2\<lparr>uploadProgress := x\<rparr>" for x
    unfolding s3_def ups_def
    using last_uploadCells_progress_only [where s = s2 and env = env and x = x] p2 [of x]
    by simp
  have p4: "s4\<lparr>uploadProgress := x\<rparr> = t2\<lparr>uploadProgress := x\<rparr>" for x
    using p3 [of x] by (simp add: s4_def setProgress_other)
  have s2: "status s2 = Uploading" "activeRagStoreName s2 = Some n"
    using progress_only_fields [OF p2 [of None]] t2 by simp_all
  have s3: "status s3 = Uploading" "activeRagStoreName s3 = Some n"
    using progress_only_fields [OF p3 [of None]] t2 by simp_all
  have s4: "status s4 = Uploading" "activeRagStoreName s4 = Some n"
    using progress_only_fields [OF p4 [of None]] t2 by simp_all
  have ups: "\<forall>r\<in>set ups. status r = Uploading \<and> activeRagStoreName r = Some n"
    unfolding ups_def using uploadCells_fields [where env = env and s = s2] s2 by simp
  obtain tail where
    cells: "initChatCells env ps dn s = s1 # (ups @ tail)" and
    tail: "tail \<noteq> []" "\<forall>r\<in>set tail. activeRagStoreName r = Some n"
      "\<forall>r\<in>set (butlast tail). status r = Uploading"
      "status (last tail) = Chatting \<or> status (last tail) = Error"
      "last tail = snd (handleInitChat env ps dn s)"
  proof (cases "snd (uploadFiles env n ps [])")
    case (Inl err)
    have h: "snd (handleInitChat env ps dn s) = snd (initChatFailed env (Some n) err t2)"
      using assms Inl by (simp add: handleInitChat_def Let_def case_prod_beta t2_def s1_def)
    have f: "snd (initChatFailed env (Some n) err s3) = snd (initChatFailed env (Some n) err t2)"
      using p3 [of None] by (rule initChatFailed_progress_only)
    show ?thesis
    proof (rule that [of "[snd (initChatFailed env (Some n) err s3)]"])
      show "initChatCells env ps dn s = s1 # (ups @ [snd (initChatFailed env (Some n) err s3)])"
        using assms Inl by (simp add: initChatCells_def Let_def defs)
      show "last [snd (initChatFailed env (Some n) err s3)] = snd (handleInitChat env ps dn s)"
        by (simp add: h f)
    qed (simp_all add: initChatFailed_store initChatFailed_status s3)
  next
    case fs: (Inr fs)
    show ?thesis
    proof (cases "generateExampleQuestions env n")
      case (Inl err)
      have h: "snd (handleInitChat env ps dn s)
                 = snd (initChatFailed env (Some n) (Rejected err) t2)"
        using assms fs Inl
        by (simp add: handleInitChat_def Let_def case_prod_beta t2_def s1_def)
      have f: "snd (initChatFailed env (Some n) (Rejected err) s4)
                 = snd (initChatFailed env (Some n) (Rejected err) t2)"
        using p4 [of None] by (rule initChatFailed_progress_only)
      show ?thesis
      proof (rule that [of "[s4, snd (initChatFailed env (Some n) (Rejected err) s4)]"])
        show "initChatCells env ps dn s =
                s1 # (ups @ [s4, snd (initChatFailed env (Some n) (Rejected err) s4)])"
          using assms fs Inl by (simp add: initChatCells_def Let_def defs)
        show "last [s4, snd (initChatFailed env (Some n) (Rejected err) s4)]
                = snd (handleInitChat env ps dn s)"
          by (simp add: h f)
      qed (simp_all add: initChatFailed_store initChatFailed_status s4)
    next
      case (Inr qs)
      define s5 where "s5 = s4\<lparr>exampleQuestions := qs,
                      uploadProgress :=
                        Some \<lparr>current = length ps + 2, total = length ps + 2,
                              message = Some ''All set!'', progressFileName = Some []\<rparr>\<rparr>"
      define s6 where "s6 = s5\<lparr>documentName := docName dn fs, chatHistory := [],
                      status := Chatting, uploadProgress := None\<rparr>"
      have s5: "status s5 = Uploading" "activeRagStoreName s5 = Some n"
        using s4 by (simp_all add: s5_def)
      have s6: "status s6 = Chatting" "activeRagStoreName s6 = Some n"
        using s5 by (simp_all add: s6_def)
      have h: "snd (handleInitChat env ps dn s)
                 = (t2\<lparr>uploadProgress := None\<rparr>)\<lparr>exampleQuestions := qs,
                       documentName := docName dn fs, chatHistory := [], status := Chatting\<rparr>"
        using assms fs Inr
        by (simp add: handleInitChat_def Let_def case_prod_beta t2_def s1_def)
      have "s6 = (s4\<lparr>uploadProgress := None\<rparr>)\<lparr>exampleQuestions := qs,
                       documentName := docName dn fs, chatHistory := [], status := Chatting\<rparr>"
        by (simp add: s6_def s5_def)
      then have f: "s6 = snd (handleInitChat env ps dn s)"
        by (simp only: p4 [of None] h)
      show ?thesis
      proof (rule that [of "[s4, s5, s6]"])
        show "initChatCells env ps dn s = s1 # (ups @ [s4, s5, s6])"
          using assms fs Inr by (simp add: initChatCells_def Let_def defs s5_def s6_def)
        show "last [s4, s5, s6] = snd (handleInitChat env ps dn s)"
          by (simp add: f)
      qed (simp_all add: s4 s5 s6)
    qed
  qed
  from tail have "\<forall>r\<in>set (ups @ tail). activeRagStoreName r = Some n"
    and "\<forall>r\<in>set (butlast (ups @ tail)). status r = Uploading"
    and "status (last (ups @ tail)) = Chatting \<or> status (last (ups @ tail)) = Error"
    and "last (ups @ tail) = snd (handleInitChat env ps dn s)"
    using ups by (auto simp add: butlast_append)
  with cells tail(1) s1 show ?thesis by simp
qed

lemma initChatCells_last:
  "last (initChatCells env ps dn s) = snd (handleInitChat env ps dn s)"
proof (cases "ps = []")
  case True
  then show ?thesis by (simp add: initChatCells_def handleInitChat_def)
next
  case False
  show ?thesis
  proof (cases "initialize env")
    case (Some t)
    with False show ?thesis by (simp add: initChatCells_def handleInitChat_def case_prod_beta)
  next
    case None
    show ?thesis
    proof (cases "createRagStore env (''chat-session-'' @ numberText (now env))")
      case (Inl t)
      with False None show ?thesis
        by (simp add: initChatCells_def handleInitChat_def case_prod_beta Let_def)
    next
      case (Inr n)
      from initChatCells_created [OF False None Inr, of dn s] obtain first rest where
        "initChatCells env ps dn s = first # rest" "rest \<noteq> []"
        "last rest = snd (handleInitChat env ps dn s)"
        by blast
      then show ?thesis by simp
    qed
  qed
qed

lemma messageCells_last:
  "last (s # messageCells env seen event s) = snd (handleMessageSeen env seen event s)"
proof (cases "eventData event")
  case None
  then show ?thesis by (simp add: messageCells_def handleMessageSeen_def)
next
  case (Some m)
  show ?thesis
  proof (cases m)
    case (InitChat payload)
    have "initChatCells env (files payload) (chatDisplayName payload) s \<noteq> []"
      by (simp add: initChatCells_def Let_def split: option.splits)
    with Some InitChat initChatCells_last [of env "files payload" "chatDisplayName payload" s]
    show ?thesis by (simp add: messageCells_def handleMessageSeen_def)
  next
    case (SendMessage msg)
    with Some show ?thesis
      by (simp add: messageCells_def handleMessageSeen_def sendMessageCells_def
            handleSendMessageSeen_def)
  next
    case ResetChat
    with Some show ?thesis
      by (simp add: messageCells_def handleMessageSeen_def resetChatCells_def)
  next
    case (Unknown t)
    with Some show ?thesis by (simp add: messageCells_def handleMessageSeen_def)
  qed
qed

lemma cells_foldl_commit: "cells (foldl commit w rs) = last (cells w # rs)"
  by (induction rs arbitrary: w) (simp_all add: commit_def)

lemma cells_step_Message:
  "cells (fst (step (w, log) (env, Message event)))
     = snd (handleMessageSeen env (listenerStore w) event (cells w))"
  by (simp add: step_def cells_foldl_commit messageCells_last del: last.simps)









section \<open>The active store over a whole session\<close>




end
